theory Spec2Isabelle
  imports Complex_Main
begin

section \<open>Time and errors\<close>

text \<open>
  The clock (\<^verbatim>\<open>utc_now()\<close>) is an explicit argument of every operation that reads it.
  A \<^verbatim>\<open>datetime\<close> is a number of microseconds since the epoch and a \<^verbatim>\<open>timedelta\<close> a
  number of microseconds, the resolution of both Python types.
  \<^verbatim>\<open>timegm(t.utctimetuple())\<close> is the second in which \<open>t\<close> lies: the token library
  reads every clock and writes every expiry through it.
\<close>

type_synonym datetime = int
type_synonym timedelta = int

definition timegm :: "datetime \<Rightarrow> int" where
  "timegm t = t div 1000000"

text \<open>\<^verbatim>\<open>timedelta(seconds=n)\<close> and \<^verbatim>\<open>timedelta(minutes=m)\<close>.\<close>

definition seconds :: "int \<Rightarrow> timedelta" where
  "seconds n = 1000000 * n"

definition minutes :: "int \<Rightarrow> timedelta" where
  "minutes m = seconds (60 * m)"

text \<open>
  The exceptions that the modelled code raises or lets through.
  \<^verbatim>\<open>HTTPException(status_code, detail, headers)\<close> is what a handler raises on purpose.
  \<^verbatim>\<open>IntegrityError\<close> is what the commit raises when a row breaks a constraint of its table
  (a null in a column that is not nullable, a primary key already present);
  \<^verbatim>\<open>AttributeError\<close> is Python's failure on reading a field of \<^verbatim>\<open>None\<close>.
  \<^verbatim>\<open>ExpiredSignatureError\<close> and \<^verbatim>\<open>JWTClaimsError\<close> are subclasses of
  \<^verbatim>\<open>JWTError\<close> in the token library; \<^verbatim>\<open>ValueError\<close>, \<^verbatim>\<open>TypeError\<close> and
  \<^verbatim>\<open>OverflowError\<close> are what Python's \<^verbatim>\<open>int(x)\<close> raises.
\<close>

datatype error =
    HTTPException nat string "(string \<times> string) list"
  | IntegrityError
  | AttributeError
  | JWTError
  | ExpiredSignatureError
  | JWTClaimsError
  | ValueError
  | TypeError
  | OverflowError

text \<open>What \<^verbatim>\<open>except JWTError\<close> catches.\<close>

definition is_JWTError :: "error \<Rightarrow> bool" where
  "is_JWTError e = (e = JWTError \<or> e = ExpiredSignatureError \<or> e = JWTClaimsError)"

section \<open>Configuration\<close>

text \<open>
  The configuration module is not part of the sources: the two lifetimes that the login
  handler reads from it are the fields of a record passed as an argument. They are written
  \<open>Settings.ACCESS_TOKEN_EXPIRE_MINUTES\<close> and \<open>Settings.REFRESH_TOKEN_EXPIRE_MINUTES\<close>;
  the unqualified names are the constants of the security module.
\<close>

record Settings =
  ACCESS_TOKEN_EXPIRE_MINUTES :: int
  REFRESH_TOKEN_EXPIRE_MINUTES :: int

section \<open>Tokens: core/security.py\<close>

subsection \<open>The JSON Web Token library, as the module uses it\<close>

text \<open>
  The module calls \<^verbatim>\<open>jwt.encode\<close> and \<^verbatim>\<open>jwt.decode\<close> of an external library.
  A claim set is a dictionary from claim names to JSON values, as Python reads them:
  \<open>Null\<close>, a boolean, an integer, a number with a fraction or an exponent (a
  \<^verbatim>\<open>float\<close>: \<open>Frac q\<close> when finite, of value \<open>q\<close>, else \<open>NaN\<close> or
  \<open>Infinite\<close>), a string, or a list or an object (\<open>Compound\<close>).
  A token is either an envelope (algorithm of the header, claim set, signature) or a string
  that does not parse as one (segments, encoding, a header and a payload that are JSON
  objects). A signature is symbolic: \<open>Hmac key claims\<close> is the one and only signature
  of \<open>claims\<close> under \<open>key\<close>, anything else is \<open>Forged\<close>.
\<close>

datatype claim =
    Null
  | Bool bool
  | Num int
  | Frac rat
  | NaN
  | Infinite
  | Str string
  | Compound

type_synonym claims = "string \<rightharpoonup> claim"

datatype signature = Hmac string claims | Forged nat

datatype token = Jws string claims signature | Garbage string

definition jwt_encode :: "claims \<Rightarrow> string \<Rightarrow> string \<Rightarrow> token" where
  "jwt_encode cs key algorithm = Jws algorithm cs (Hmac key cs)"

text \<open>
  Python's \<^verbatim>\<open>int(x)\<close> on a claim: the integer itself, 0 or 1 for a boolean, the
  truncation towards zero of a finite float, the value of a string that is a numeral;
  \<^verbatim>\<open>ValueError\<close> on any other string and on NaN, \<^verbatim>\<open>OverflowError\<close> on an infinity,
  \<^verbatim>\<open>TypeError\<close> on \<^verbatim>\<open>None\<close>, a list or an object. Which strings are numerals, and of
  what value, is Python's: the reading of a string is the argument \<open>str_int\<close>.
\<close>

definition py_int :: "(string \<Rightarrow> int option) \<Rightarrow> claim \<Rightarrow> error + int" where
  "py_int str_int c =
     (case c of
        Null \<Rightarrow> Inl TypeError
      | Bool b \<Rightarrow> Inr (if b then 1 else 0)
      | Num n \<Rightarrow> Inr n
      | Frac q \<Rightarrow> Inr (if 0 \<le> q then \<lfloor>q\<rfloor> else \<lceil>q\<rceil>)
      | NaN \<Rightarrow> Inl ValueError
      | Infinite \<Rightarrow> Inl OverflowError
      | Str s \<Rightarrow> (case str_int s of None \<Rightarrow> Inl ValueError | Some n \<Rightarrow> Inr n)
      | Compound \<Rightarrow> Inl TypeError)"

text \<open>
  The library converts a time claim under \<^verbatim>\<open>except ValueError\<close>, which it turns into
  \<^verbatim>\<open>JWTClaimsError\<close>; a \<^verbatim>\<open>TypeError\<close> or an \<^verbatim>\<open>OverflowError\<close> passes through.
\<close>

definition claim_int :: "(string \<Rightarrow> int option) \<Rightarrow> claim \<Rightarrow> error + int" where
  "claim_int str_int c =
     (case py_int str_int c of
        Inl e \<Rightarrow> if e = ValueError then Inl JWTClaimsError else Inl e
      | Inr n \<Rightarrow> Inr n)"

text \<open>
  The checks of the claims, each giving the exception it raises, if any. The call of the
  module passes no audience, issuer, subject or access token: any \<^verbatim>\<open>aud\<close> claim is then
  an invalid audience, any \<^verbatim>\<open>at_hash\<close> claim has nothing to be compared with, and
  \<^verbatim>\<open>iss\<close> is not looked at.
\<close>

definition validate_iat :: "(string \<Rightarrow> int option) \<Rightarrow> claims \<Rightarrow> error option" where
  "validate_iat str_int cs =
     (case cs ''iat'' of
        None \<Rightarrow> None
      | Some c \<Rightarrow> (case claim_int str_int c of Inl e \<Rightarrow> Some e | Inr _ \<Rightarrow> None))"

definition validate_nbf :: "(string \<Rightarrow> int option) \<Rightarrow> datetime \<Rightarrow> claims \<Rightarrow> error option" where
  "validate_nbf str_int now cs =
     (case cs ''nbf'' of
        None \<Rightarrow> None
      | Some c \<Rightarrow>
          (case claim_int str_int c of
             Inl e \<Rightarrow> Some e
           | Inr nbf \<Rightarrow> if timegm now < nbf then Some JWTClaimsError else None))"

definition validate_exp :: "(string \<Rightarrow> int option) \<Rightarrow> datetime \<Rightarrow> claims \<Rightarrow> error option" where
  "validate_exp str_int now cs =
     (case cs ''exp'' of
        None \<Rightarrow> None
      | Some c \<Rightarrow>
          (case claim_int str_int c of
             Inl e \<Rightarrow> Some e
           | Inr e \<Rightarrow> if e < timegm now then Some ExpiredSignatureError else None))"

definition validate_aud :: "claims \<Rightarrow> error option" where
  "validate_aud cs = (case cs ''aud'' of None \<Rightarrow> None | Some _ \<Rightarrow> Some JWTClaimsError)"

definition validate_str :: "string \<Rightarrow> claims \<Rightarrow> error option" where
  "validate_str name cs =
     (case cs name of
        None \<Rightarrow> None
      | Some (Str _) \<Rightarrow> None
      | Some _ \<Rightarrow> Some JWTClaimsError)"

definition validate_at_hash :: "claims \<Rightarrow> error option" where
  "validate_at_hash cs =
     (case cs ''at_hash'' of None \<Rightarrow> None | Some _ \<Rightarrow> Some JWTClaimsError)"

text \<open>The checks run in this order and stop at the first exception.\<close>

fun first_error :: "error option list \<Rightarrow> error option" where
  "first_error [] = None"
| "first_error (None # rs) = first_error rs"
| "first_error (Some e # rs) = Some e"

definition validate_claims :: "(string \<Rightarrow> int option) \<Rightarrow> datetime \<Rightarrow> claims \<Rightarrow> error option" where
  "validate_claims str_int now cs =
     first_error
       [validate_iat str_int cs, validate_nbf str_int now cs, validate_exp str_int now cs,
        validate_aud cs, validate_str ''sub'' cs, validate_str ''jti'' cs,
        validate_at_hash cs]"

text \<open>
  Decoding raises \<^verbatim>\<open>JWTError\<close> on a string that does not parse, on an algorithm that is
  not among the accepted ones and on a signature that does not match, in this order, and
  then checks the claims.
\<close>

definition jwt_decode ::
  "(string \<Rightarrow> int option) \<Rightarrow> datetime \<Rightarrow> token \<Rightarrow> string \<Rightarrow> string list \<Rightarrow> error + claims" where
  "jwt_decode str_int now tok key algorithms =
     (case tok of
        Garbage _ \<Rightarrow> Inl JWTError
      | Jws alg cs sg \<Rightarrow>
          if alg \<notin> set algorithms then Inl JWTError
          else if sg \<noteq> Hmac key cs then Inl JWTError
          else (case validate_claims str_int now cs of
                  Some e \<Rightarrow> Inl e
                | None \<Rightarrow> Inr cs))"

subsection \<open>The module\<close>

definition ALGORITHM :: string where
  "ALGORITHM = ''HS256''"

definition SECRET_KEY :: string where
  "SECRET_KEY = ''dev-secret-key-replace-in-production''"

definition ACCESS_TOKEN_EXPIRE_MINUTES :: int where
  "ACCESS_TOKEN_EXPIRE_MINUTES = 300"

definition REFRESH_TOKEN_EXPIRE_MINUTES :: int where
  "REFRESH_TOKEN_EXPIRE_MINUTES = 10080"

text \<open>
  \<^verbatim>\<open>if expires_delta:\<close> tests truthiness: an absent delta and a delta of zero both take
  the default lifetime. The library writes the expiry \<^verbatim>\<open>expire\<close>, a
  \<^verbatim>\<open>datetime\<close>, as the second in which it lies.
\<close>

definition create_access_token :: "datetime \<Rightarrow> claims \<Rightarrow> timedelta option \<Rightarrow> token" where
  "create_access_token now data expires_delta =
     (let to_encode = data;
          expire = (case expires_delta of
                      Some d \<Rightarrow> if d \<noteq> 0 then now + d
                                else now + minutes ACCESS_TOKEN_EXPIRE_MINUTES
                    | None \<Rightarrow> now + minutes ACCESS_TOKEN_EXPIRE_MINUTES);
          to_encode = to_encode(''exp'' \<mapsto> Num (timegm expire), ''type'' \<mapsto> Str ''access'')
      in jwt_encode to_encode SECRET_KEY ALGORITHM)"

definition create_refresh_token :: "datetime \<Rightarrow> claims \<Rightarrow> timedelta option \<Rightarrow> token" where
  "create_refresh_token now data expires_delta =
     (let to_encode = data;
          expire = (case expires_delta of
                      Some d \<Rightarrow> if d \<noteq> 0 then now + d
                                else now + minutes REFRESH_TOKEN_EXPIRE_MINUTES
                    | None \<Rightarrow> now + minutes REFRESH_TOKEN_EXPIRE_MINUTES);
          to_encode = to_encode(''exp'' \<mapsto> Num (timegm expire), ''type'' \<mapsto> Str ''refresh'')
      in jwt_encode to_encode SECRET_KEY ALGORITHM)"

text \<open>
  The result is \<open>Inr None\<close> for the return of \<^verbatim>\<open>None\<close>, \<open>Inr (Some u)\<close> for the
  return of the username, and \<open>Inl e\<close> for an exception that \<^verbatim>\<open>except JWTError\<close> does
  not catch. \<^verbatim>\<open>payload.get("sub")\<close> is \<^verbatim>\<open>None\<close> when the claim is missing; after a
  successful decode a present \<^verbatim>\<open>sub\<close> is a string, so the last branch below is never
  taken.
\<close>

definition verify_token ::
  "(string \<Rightarrow> int option) \<Rightarrow> datetime \<Rightarrow> token \<Rightarrow> string \<Rightarrow> error + string option" where
  "verify_token str_int now tok token_type =
     (case jwt_decode str_int now tok SECRET_KEY [ALGORITHM] of
        Inl e \<Rightarrow> if is_JWTError e then Inr None else Inl e
      | Inr payload \<Rightarrow>
          (let username = payload ''sub'';
               token_type_claim = payload ''type''
           in if username = None \<or> token_type_claim \<noteq> Some (Str token_type) then Inr None
              else (case username of Some (Str u) \<Rightarrow> Inr (Some u) | _ \<Rightarrow> Inr None)))"

definition verify_access_token ::
  "(string \<Rightarrow> int option) \<Rightarrow> datetime \<Rightarrow> token \<Rightarrow> error + string option" where
  "verify_access_token str_int now tok = verify_token str_int now tok ''access''"

definition verify_refresh_token ::
  "(string \<Rightarrow> int option) \<Rightarrow> datetime \<Rightarrow> token \<Rightarrow> error + string option" where
  "verify_refresh_token str_int now tok = verify_token str_int now tok ''refresh''"

subsection \<open>Passwords\<close>

text \<open>
  \<^verbatim>\<open>pwd_context\<close> belongs to an external hashing library: its two operations are the
  fields of a record passed as an argument (the salt drawn by \<^verbatim>\<open>hash\<close> is part of it).
\<close>

record CryptContext =
  hash :: "string \<Rightarrow> string"
  verify :: "string \<Rightarrow> string \<Rightarrow> bool"

definition verify_password :: "CryptContext \<Rightarrow> string \<Rightarrow> string \<Rightarrow> bool" where
  "verify_password pwd_context plain_password hashed_password =
     verify pwd_context plain_password hashed_password"

definition get_password_hash :: "CryptContext \<Rightarrow> string \<Rightarrow> string" where
  "get_password_hash pwd_context password = hash pwd_context password"

section \<open>Decimals\<close>

text \<open>
  A \<^verbatim>\<open>Decimal\<close> is the rational number that it denotes. An operation of Python's
  \<^verbatim>\<open>decimal\<close> module computes the exact result and rounds it to the 28 significant
  digits of the default context, a tie going to the even neighbour: this rounding is
  \<open>context_round\<close>. The bounds of the exponent are not modelled.
\<close>

type_synonym Decimal = rat

text \<open>The number of decimal digits of a positive integer, and 1 below 10.\<close>

function digits :: "int \<Rightarrow> nat" where
  "digits n = (if n < 10 then 1 else Suc (digits (n div 10)))"
  by pat_completeness auto
termination
  by (relation "measure nat") auto

declare digits.simps [simp del]

definition round_half_even :: "rat \<Rightarrow> int" where
  "round_half_even q =
     (let f = \<lfloor>q\<rfloor>; r = q - of_int f
      in if r < 1 / 2 then f else if 1 / 2 < r then f + 1 else if even f then f else f + 1)"

text \<open>
  The exponent of the leading digit of a number that is not zero
  (\<^verbatim>\<open>Decimal.adjusted()\<close>): 3 for 1500, \<open>-1\<close> for 0.15.
\<close>

definition adjusted :: "rat \<Rightarrow> int" where
  "adjusted q =
     (if 1 \<le> \<bar>q\<bar> then int (digits \<lfloor>\<bar>q\<bar>\<rfloor>) - 1
      else - int (digits (\<lceil>1 / \<bar>q\<bar>\<rceil> - 1)))"

definition prec :: int where
  "prec = 28"

definition context_round :: "Decimal \<Rightarrow> Decimal" where
  "context_round q =
     (if q = 0 then 0
      else (let e = adjusted q - (prec - 1)
            in if 0 \<le> e then of_int (round_half_even (q / 10 ^ nat e)) * 10 ^ nat e
               else of_int (round_half_even (q * 10 ^ nat (- e))) / 10 ^ nat (- e)))"

section \<open>Data model: models/user_model.py and models/travel_model.py\<close>

text \<open>
  Classes are records with the fields of the source; a field name shared by several
  classes is written with its class (\<open>DBUser.id\<close>, \<open>User.id\<close>). The field
  \<^verbatim>\<open>notes\<close> is \<open>plan_notes\<close>, since \<^verbatim>\<open>notes\<close> is a reserved word here.
\<close>

record DBUser =
  id :: string
  email :: string
  username :: string
  hashed_password :: string
  first_name :: string
  last_name :: string
  phone :: "string option"
  date_of_birth :: "datetime option"
  national_id :: "string option"
  is_active :: bool
  created_at :: datetime
  updated_at :: "datetime option"

record User =
  id :: string
  email :: string
  username :: string
  first_name :: string
  last_name :: string
  phone :: "string option"
  date_of_birth :: "datetime option"
  is_active :: bool
  created_at :: datetime

record RegisteredUser =
  email :: string
  username :: string
  password :: string
  first_name :: string
  last_name :: string
  phone :: "string option"
  date_of_birth :: "datetime option"
  national_id :: "string option"

record UserLogin =
  username :: string
  password :: string

record DBProvince =
  id :: int
  name_th :: string
  name_en :: string
  region :: string
  is_secondary_province :: bool
  tax_reduction_percentage :: Decimal
  description :: "string option"

record Province =
  id :: int
  name_th :: string
  name_en :: string
  region :: string
  is_secondary_province :: bool
  tax_reduction_percentage :: Decimal
  description :: "string option"

record DBTravelPlan =
  id :: string
  user_id :: string
  province_id :: int
  start_date :: datetime
  end_date :: datetime
  budget :: "Decimal option"
  estimated_tax_reduction :: "Decimal option"
  status :: string
  plan_notes :: "string option"
  created_at :: datetime
  updated_at :: "datetime option"

record TravelPlan =
  id :: string
  user_id :: string
  province_id :: int
  province :: Province
  start_date :: datetime
  end_date :: datetime
  budget :: "Decimal option"
  estimated_tax_reduction :: "Decimal option"
  status :: string
  plan_notes :: "string option"
  created_at :: datetime

record CreateTravelPlan =
  province_id :: int
  start_date :: datetime
  end_date :: datetime
  budget :: "Decimal option"
  plan_notes :: "string option"

text \<open>
  Every field of \<^verbatim>\<open>UpdateTravelPlan\<close> is optional with default \<^verbatim>\<open>None\<close>, and the
  handler reads it with \<^verbatim>\<open>model_dump(exclude_unset=True)\<close>: a field the request does not
  mention is \<open>Unset\<close>, a field the request mentions is \<open>Given v\<close>, where \<open>v\<close> is
  \<open>None\<close> for an explicit \<^verbatim>\<open>null\<close>.
\<close>

datatype 'a supplied = Unset | Given 'a

record UpdateTravelPlan =
  start_date :: "datetime option supplied"
  end_date :: "datetime option supplied"
  budget :: "Decimal option supplied"
  status :: "string option supplied"
  plan_notes :: "string option supplied"

section \<open>Response schemas: schemas/user_schemas.py and schemas/travel_schemas.py\<close>

record UserRegistrationResponse =
  user :: User
  message :: string
  next_steps :: "string list"

record LoginResponse =
  access_token :: token
  refresh_token :: token
  token_type :: string
  expires_in :: int
  user :: User

text \<open>
  The \<^verbatim>\<open>tax_benefits\<close> dictionary of the creation response, with its three keys.
  The two numbers are the decimals that the handler passes to \<^verbatim>\<open>float\<close>: the
  conversion to a binary float is not modelled.
\<close>

record TaxBenefits =
  estimated_reduction :: rat
  tax_rate :: rat
  is_secondary_province :: bool

record TravelPlanCreationResponse =
  travel_plan :: TravelPlan
  message :: string
  tax_benefits :: TaxBenefits
  suggestions :: "string list"
  next_steps :: "string list"

section \<open>The store\<close>

text \<open>
  A session holds the three tables, each a list of rows. \<^verbatim>\<open>session.get(C, k)\<close> and
  \<^verbatim>\<open>select(C).where(...).first()\<close> return the first row that satisfies the condition.
  A row holds what the table returns. What a \<^verbatim>\<open>Numeric\<close> column returns for a decimal
  written to it depends on the engine behind the session (one engine keeps the decimal,
  another keeps a binary float and returns that float as a decimal): it is the field
  \<open>numeric_column\<close>, and nothing is assumed of it.
\<close>

record session =
  users :: "DBUser list"
  provinces :: "DBProvince list"
  travel_plans :: "DBTravelPlan list"
  numeric_column :: "Decimal \<Rightarrow> Decimal"

text \<open>The public view of a stored row, as every handler builds it field by field.\<close>

definition User_of :: "DBUser \<Rightarrow> User" where
  "User_of u =
     \<lparr>User.id = DBUser.id u, User.email = DBUser.email u, User.username = DBUser.username u,
      User.first_name = DBUser.first_name u, User.last_name = DBUser.last_name u,
      User.phone = DBUser.phone u, User.date_of_birth = DBUser.date_of_birth u,
      User.is_active = DBUser.is_active u, User.created_at = DBUser.created_at u\<rparr>"

definition Province_of :: "DBProvince \<Rightarrow> Province" where
  "Province_of p =
     \<lparr>Province.id = DBProvince.id p, Province.name_th = DBProvince.name_th p,
      Province.name_en = DBProvince.name_en p, Province.region = DBProvince.region p,
      Province.is_secondary_province = DBProvince.is_secondary_province p,
      Province.tax_reduction_percentage = DBProvince.tax_reduction_percentage p,
      Province.description = DBProvince.description p\<rparr>"

definition TravelPlan_of :: "DBTravelPlan \<Rightarrow> Province \<Rightarrow> TravelPlan" where
  "TravelPlan_of tp province_model =
     \<lparr>TravelPlan.id = DBTravelPlan.id tp, TravelPlan.user_id = DBTravelPlan.user_id tp,
      TravelPlan.province_id = DBTravelPlan.province_id tp, TravelPlan.province = province_model,
      TravelPlan.start_date = DBTravelPlan.start_date tp,
      TravelPlan.end_date = DBTravelPlan.end_date tp, TravelPlan.budget = DBTravelPlan.budget tp,
      TravelPlan.estimated_tax_reduction = DBTravelPlan.estimated_tax_reduction tp,
      TravelPlan.status = DBTravelPlan.status tp, TravelPlan.plan_notes = DBTravelPlan.plan_notes tp,
      TravelPlan.created_at = DBTravelPlan.created_at tp\<rparr>"

section \<open>Authentication gateway: core/deps.py\<close>

definition credentials_exception :: error where
  "credentials_exception =
     HTTPException 401 ''Could not validate credentials'' [(''WWW-Authenticate'', ''Bearer'')]"

definition get_current_user ::
  "(string \<Rightarrow> int option) \<Rightarrow> datetime \<Rightarrow> token \<Rightarrow> session \<Rightarrow> error + User" where
  "get_current_user str_int now credentials s =
     (case verify_token str_int now credentials ''access'' of
        Inl e \<Rightarrow> Inl e
      | Inr None \<Rightarrow> Inl credentials_exception
      | Inr (Some name) \<Rightarrow>
          (case find (\<lambda>u. DBUser.username u = name) (users s) of
             None \<Rightarrow> Inl credentials_exception
           | Some u \<Rightarrow>
               if \<not> DBUser.is_active u then Inl (HTTPException 400 ''Inactive user'' [])
               else Inr (User_of u)))"

section \<open>Users: routers/v1/user_router.py\<close>

text \<open>
  The identifier of a new row (\<^verbatim>\<open>uuid4()\<close>) and the clock are arguments. The commit of a
  row whose primary key is already in the table raises \<^verbatim>\<open>IntegrityError\<close> and writes
  nothing.
\<close>

definition register ::
  "CryptContext \<Rightarrow> string \<Rightarrow> datetime \<Rightarrow> RegisteredUser \<Rightarrow> session
     \<Rightarrow> (error + UserRegistrationResponse) \<times> session" where
  "register pwd_context new_id now user_info s =
     (if find (\<lambda>u. DBUser.email u = RegisteredUser.email user_info) (users s) \<noteq> None
      then (Inl (HTTPException 400 ''Email already registered'' []), s)
      else if find (\<lambda>u. DBUser.username u = RegisteredUser.username user_info) (users s) \<noteq> None
      then (Inl (HTTPException 400 ''Username already taken'' []), s)
      else
        (let hashed = get_password_hash pwd_context (RegisteredUser.password user_info);
             db_user =
               \<lparr>DBUser.id = new_id, DBUser.email = RegisteredUser.email user_info,
                DBUser.username = RegisteredUser.username user_info,
                DBUser.hashed_password = hashed,
                DBUser.first_name = RegisteredUser.first_name user_info,
                DBUser.last_name = RegisteredUser.last_name user_info,
                DBUser.phone = RegisteredUser.phone user_info,
                DBUser.date_of_birth = RegisteredUser.date_of_birth user_info,
                DBUser.national_id = RegisteredUser.national_id user_info,
                DBUser.is_active = True, DBUser.created_at = now, DBUser.updated_at = None\<rparr>
         in if find (\<lambda>u. DBUser.id u = new_id) (users s) \<noteq> None then (Inl IntegrityError, s)
            else (Inr \<lparr>UserRegistrationResponse.user = User_of db_user,
                       UserRegistrationResponse.message = ''User registered successfully'',
                       UserRegistrationResponse.next_steps =
                         [''Please verify your email address'',
                          ''Complete your profile information'',
                          ''Start planning your first trip'']\<rparr>,
                  s\<lparr>users := users s @ [db_user]\<rparr>)))"

definition login ::
  "CryptContext \<Rightarrow> Settings \<Rightarrow> datetime \<Rightarrow> UserLogin \<Rightarrow> session \<Rightarrow> error + LoginResponse" where
  "login pwd_context settings now user_login s =
     (case find (\<lambda>u. DBUser.username u = UserLogin.username user_login) (users s) of
        None \<Rightarrow>
          Inl (HTTPException 401 ''Incorrect username or password''
                 [(''WWW-Authenticate'', ''Bearer'')])
      | Some u \<Rightarrow>
          if \<not> verify_password pwd_context (UserLogin.password user_login) (DBUser.hashed_password u)
          then Inl (HTTPException 401 ''Incorrect username or password''
                      [(''WWW-Authenticate'', ''Bearer'')])
          else if \<not> DBUser.is_active u then Inl (HTTPException 400 ''Inactive user'' [])
          else
            (let access_token_expires = minutes (Settings.ACCESS_TOKEN_EXPIRE_MINUTES settings);
                 refresh_token_expires = minutes (Settings.REFRESH_TOKEN_EXPIRE_MINUTES settings);
                 data = [''sub'' \<mapsto> Str (DBUser.username u)]
             in Inr \<lparr>LoginResponse.access_token =
                        create_access_token now data (Some access_token_expires),
                      LoginResponse.refresh_token =
                        create_refresh_token now data (Some refresh_token_expires),
                      LoginResponse.token_type = ''bearer'',
                      LoginResponse.expires_in = Settings.ACCESS_TOKEN_EXPIRE_MINUTES settings * 60,
                      LoginResponse.user = User_of u\<rparr>))"

section \<open>Travel plans: routers/v1/travel_router.py\<close>

text \<open>
  A local variable of a handler whose name is also the name of a field is shortened:
  \<^verbatim>\<open>travel_plan\<close> is \<open>plan\<close>, \<^verbatim>\<open>province\<close> is \<open>prov\<close>,
  \<^verbatim>\<open>travel_plan_update\<close> is \<open>plan_update\<close>.
\<close>

definition not_found :: "string \<Rightarrow> error" where
  "not_found detail = HTTPException 404 detail []"

text \<open>
  The commit of a new row writes every column and the refresh reads the row back: the two
  decimals of a plan come back as their columns return them.
\<close>

definition insert_row :: "session \<Rightarrow> DBTravelPlan \<Rightarrow> DBTravelPlan" where
  "insert_row s tp =
     tp\<lparr>DBTravelPlan.budget := map_option (numeric_column s) (DBTravelPlan.budget tp),
        DBTravelPlan.estimated_tax_reduction :=
          map_option (numeric_column s) (DBTravelPlan.estimated_tax_reduction tp)\<rparr>"

text \<open>
  The commit of a loaded row writes the columns whose value is no longer the loaded one,
  and the refresh reads the row back: a decimal that was assigned a new value comes back as
  its column returns it, any other column is as it was.
\<close>

definition write_numeric :: "session \<Rightarrow> Decimal option \<Rightarrow> Decimal option \<Rightarrow> Decimal option" where
  "write_numeric s loaded v = (if v = loaded then loaded else map_option (numeric_column s) v)"

definition update_row :: "session \<Rightarrow> DBTravelPlan \<Rightarrow> DBTravelPlan \<Rightarrow> DBTravelPlan" where
  "update_row s loaded tp =
     tp\<lparr>DBTravelPlan.budget :=
          write_numeric s (DBTravelPlan.budget loaded) (DBTravelPlan.budget tp),
        DBTravelPlan.estimated_tax_reduction :=
          write_numeric s (DBTravelPlan.estimated_tax_reduction loaded)
            (DBTravelPlan.estimated_tax_reduction tp)\<rparr>"

text \<open>
  \<^verbatim>\<open>if travel_plan.budget:\<close> tests truthiness: an absent budget and a budget of zero both
  skip the computation. The division and the product are operations of the decimal context.
  The response is built from the row after the refresh.
  \<^verbatim>\<open>x or 0\<close> is \<open>0\<close> when \<open>x\<close> is absent or zero.
\<close>

definition create_travel_plan ::
  "string \<Rightarrow> datetime \<Rightarrow> CreateTravelPlan \<Rightarrow> User \<Rightarrow> session
     \<Rightarrow> (error + TravelPlanCreationResponse) \<times> session" where
  "create_travel_plan new_id now plan current_user s =
     (case find (\<lambda>p. DBProvince.id p = CreateTravelPlan.province_id plan) (provinces s) of
        None \<Rightarrow> (Inl (not_found ''Province not found''), s)
      | Some prov \<Rightarrow>
          (let estimated =
                 (case CreateTravelPlan.budget plan of
                    None \<Rightarrow> None
                  | Some b \<Rightarrow>
                      if b \<noteq> 0
                      then (let tax_rate =
                                  context_round (DBProvince.tax_reduction_percentage prov / 100)
                            in Some (context_round (b * tax_rate)))
                      else None);
               new_plan =
                 \<lparr>DBTravelPlan.id = new_id, DBTravelPlan.user_id = User.id current_user,
                  DBTravelPlan.province_id = CreateTravelPlan.province_id plan,
                  DBTravelPlan.start_date = CreateTravelPlan.start_date plan,
                  DBTravelPlan.end_date = CreateTravelPlan.end_date plan,
                  DBTravelPlan.budget = CreateTravelPlan.budget plan,
                  DBTravelPlan.estimated_tax_reduction = estimated,
                  DBTravelPlan.status = ''planned'',
                  DBTravelPlan.plan_notes = CreateTravelPlan.plan_notes plan,
                  DBTravelPlan.created_at = now, DBTravelPlan.updated_at = None\<rparr>;
               db_travel_plan = insert_row s new_plan
           in if find (\<lambda>p. DBTravelPlan.id p = new_id) (travel_plans s) \<noteq> None
              then (Inl IntegrityError, s)
              else
                (Inr \<lparr>TravelPlanCreationResponse.travel_plan =
                         TravelPlan_of db_travel_plan (Province_of prov),
                       TravelPlanCreationResponse.message = ''Travel plan created successfully'',
                       TravelPlanCreationResponse.tax_benefits =
                         \<lparr>TaxBenefits.estimated_reduction =
                            (case DBTravelPlan.estimated_tax_reduction db_travel_plan of
                               None \<Rightarrow> 0
                             | Some d \<Rightarrow> if d \<noteq> 0 then d else 0),
                          TaxBenefits.tax_rate = DBProvince.tax_reduction_percentage prov,
                          TaxBenefits.is_secondary_province =
                            DBProvince.is_secondary_province prov\<rparr>,
                       TravelPlanCreationResponse.suggestions =
                         [''Visit '' @ DBProvince.name_th prov
                            @ '' during off-peak season for better deals'',
                          ''Consider extending your stay to maximize tax benefits'',
                          ''Keep all receipts for tax deduction claims''],
                       TravelPlanCreationResponse.next_steps =
                         [''Review your itinerary'', ''Book accommodations'',
                          ''Prepare necessary documents'', ''Check weather conditions'']\<rparr>,
                 s\<lparr>travel_plans := travel_plans s @ [db_travel_plan]\<rparr>)))"

text \<open>
  \<^verbatim>\<open>select(DBTravelPlan, DBProvince).join(DBProvince)\<close> pairs each plan with the
  provinces of its \<^verbatim>\<open>province_id\<close>; \<^verbatim>\<open>where\<close> keeps the pairs of the given
  identifier and owner; \<^verbatim>\<open>first()\<close> takes the first pair, if any.
\<close>

definition join_province ::
  "DBTravelPlan list \<Rightarrow> DBProvince list \<Rightarrow> (DBTravelPlan \<times> DBProvince) list" where
  "join_province tps prs =
     concat (map (\<lambda>tp. map (Pair tp)
                          (filter (\<lambda>pr. DBTravelPlan.province_id tp = DBProvince.id pr) prs))
               tps)"

definition get_travel_plan :: "string \<Rightarrow> User \<Rightarrow> session \<Rightarrow> error + TravelPlan" where
  "get_travel_plan plan_id current_user s =
     (case filter (\<lambda>(tp, pr). DBTravelPlan.id tp = plan_id
                              \<and> DBTravelPlan.user_id tp = User.id current_user)
             (join_province (travel_plans s) (provinces s)) of
        [] \<Rightarrow> Inl (not_found ''Travel plan not found'')
      | (tp, pr) # _ \<Rightarrow> Inr (TravelPlan_of tp (Province_of pr)))"

text \<open>
  The loop \<^verbatim>\<open>for field, value in update_data.items(): setattr(travel_plan, field, value)\<close>
  assigns every supplied field, \<^verbatim>\<open>null\<close> included. The columns \<^verbatim>\<open>start_date\<close>,
  \<^verbatim>\<open>end_date\<close> and \<^verbatim>\<open>status\<close> are not nullable: the assignment of \<^verbatim>\<open>None\<close> passes
  in memory and the commit raises \<^verbatim>\<open>IntegrityError\<close>, so that nothing is written; nothing
  between the loop and the commit has an effect, and the failure is returned by the
  assignment here.
\<close>

definition setattr_required :: "'a option supplied \<Rightarrow> 'a \<Rightarrow> error + 'a" where
  "setattr_required field old =
     (case field of
        Unset \<Rightarrow> Inr old
      | Given None \<Rightarrow> Inl IntegrityError
      | Given (Some v) \<Rightarrow> Inr v)"

definition setattr_nullable :: "'a option supplied \<Rightarrow> 'a option \<Rightarrow> 'a option" where
  "setattr_nullable field old = (case field of Unset \<Rightarrow> old | Given v \<Rightarrow> v)"

definition apply_update_data :: "UpdateTravelPlan \<Rightarrow> DBTravelPlan \<Rightarrow> error + DBTravelPlan" where
  "apply_update_data upd tp =
     (case setattr_required (UpdateTravelPlan.start_date upd) (DBTravelPlan.start_date tp) of
        Inl e \<Rightarrow> Inl e
      | Inr sd \<Rightarrow>
     (case setattr_required (UpdateTravelPlan.end_date upd) (DBTravelPlan.end_date tp) of
        Inl e \<Rightarrow> Inl e
      | Inr ed \<Rightarrow>
     (case setattr_required (UpdateTravelPlan.status upd) (DBTravelPlan.status tp) of
        Inl e \<Rightarrow> Inl e
      | Inr st \<Rightarrow>
          Inr (tp\<lparr>DBTravelPlan.start_date := sd, DBTravelPlan.end_date := ed,
                  DBTravelPlan.budget :=
                    setattr_nullable (UpdateTravelPlan.budget upd) (DBTravelPlan.budget tp),
                  DBTravelPlan.status := st,
                  DBTravelPlan.plan_notes :=
                    setattr_nullable (UpdateTravelPlan.plan_notes upd)
                      (DBTravelPlan.plan_notes tp)\<rparr>))))"

text \<open>
  The recomputation runs when \<^verbatim>\<open>"budget" in update_data and travel_plan.budget\<close>: the
  budget was supplied and its new value is neither \<^verbatim>\<open>None\<close> nor zero.
\<close>

definition recalculate :: "UpdateTravelPlan \<Rightarrow> session \<Rightarrow> DBTravelPlan \<Rightarrow> DBTravelPlan" where
  "recalculate upd s tp =
     (if UpdateTravelPlan.budget upd \<noteq> Unset
      then (case DBTravelPlan.budget tp of
              None \<Rightarrow> tp
            | Some b \<Rightarrow>
                if b \<noteq> 0
                then (case find (\<lambda>p. DBProvince.id p = DBTravelPlan.province_id tp) (provinces s) of
                        None \<Rightarrow> tp
                      | Some prov \<Rightarrow>
                          (let tax_rate =
                                 context_round (DBProvince.tax_reduction_percentage prov / 100)
                           in tp\<lparr>DBTravelPlan.estimated_tax_reduction :=
                                   Some (context_round (b * tax_rate))\<rparr>))
                else tp)
      else tp)"

text \<open>
  After the commit and the refresh the handler reads the province again and builds the
  response from it:
  when the province is missing, \<^verbatim>\<open>province.id\<close> raises after the row has been written.
\<close>

definition update_travel_plan ::
  "datetime \<Rightarrow> string \<Rightarrow> UpdateTravelPlan \<Rightarrow> User \<Rightarrow> session \<Rightarrow> (error + TravelPlan) \<times> session" where
  "update_travel_plan now plan_id plan_update current_user s =
     (case find (\<lambda>p. DBTravelPlan.id p = plan_id) (travel_plans s) of
        None \<Rightarrow> (Inl (not_found ''Travel plan not found''), s)
      | Some plan \<Rightarrow>
          if DBTravelPlan.user_id plan \<noteq> User.id current_user
          then (Inl (not_found ''Travel plan not found''), s)
          else
            (case apply_update_data plan_update plan of
               Inl e \<Rightarrow> (Inl e, s)
             | Inr tp1 \<Rightarrow>
                 (let tp2 = recalculate plan_update s tp1;
                      tp3 = update_row s plan (tp2\<lparr>DBTravelPlan.updated_at := Some now\<rparr>);
                      s' = s\<lparr>travel_plans :=
                               map (\<lambda>p. if DBTravelPlan.id p = DBTravelPlan.id tp3 then tp3 else p)
                                 (travel_plans s)\<rparr>
                  in (case find (\<lambda>p. DBProvince.id p = DBTravelPlan.province_id tp3)
                              (provinces s') of
                        None \<Rightarrow> (Inl AttributeError, s')
                      | Some prov \<Rightarrow> (Inr (TravelPlan_of tp3 (Province_of prov)), s')))))"

definition delete_travel_plan ::
  "string \<Rightarrow> User \<Rightarrow> session \<Rightarrow> (error + (string \<times> string) list) \<times> session" where
  "delete_travel_plan plan_id current_user s =
     (case find (\<lambda>p. DBTravelPlan.id p = plan_id) (travel_plans s) of
        None \<Rightarrow> (Inl (not_found ''Travel plan not found''), s)
      | Some plan \<Rightarrow>
          if DBTravelPlan.user_id plan \<noteq> User.id current_user
          then (Inl (not_found ''Travel plan not found''), s)
          else (Inr [(''message'', ''Travel plan deleted successfully'')],
                s\<lparr>travel_plans :=
                    filter (\<lambda>p. DBTravelPlan.id p \<noteq> DBTravelPlan.id plan)
                      (travel_plans s)\<rparr>))"

section \<open>Fixtures: tests/conftest.py\<close>

text \<open>
  The two provinces and the user of the test suite (Thai names in their English form, the
  random part of the identifiers fixed), a second user, a password context that marks a
  digest by a prefix, and the session after the first user has created a plan with a budget
  of 10000 in the province of rate 15. The numeric columns of the fixture session return
  the decimal written to them, as every engine does for the decimals of the fixtures.
  \<open>decimal_digits\<close> reads a string of ASCII digits as Python's \<^verbatim>\<open>int\<close> does, and
  no other string.
\<close>

fun digits_value :: "string \<Rightarrow> nat \<Rightarrow> nat option" where
  "digits_value [] acc = Some acc"
| "digits_value (c # cs) acc =
     (if c \<in> set ''0123456789'' then digits_value cs (10 * acc + (of_char c - 48)) else None)"

definition decimal_digits :: "string \<Rightarrow> int option" where
  "decimal_digits s = (if s = [] then None else map_option int (digits_value s 0))"

definition test_provinces :: "DBProvince list" where
  "test_provinces =
     [\<lparr>DBProvince.id = 1001, DBProvince.name_th = ''Mae Hong Son'',
       DBProvince.name_en = ''Mae Hong Son'', DBProvince.region = ''North'',
       DBProvince.is_secondary_province = True, DBProvince.tax_reduction_percentage = 15,
       DBProvince.description = None\<rparr>,
      \<lparr>DBProvince.id = 1002, DBProvince.name_th = ''Bangkok'',
       DBProvince.name_en = ''Bangkok'', DBProvince.region = ''Central'',
       DBProvince.is_secondary_province = False, DBProvince.tax_reduction_percentage = 0,
       DBProvince.description = None\<rparr>]"

definition test_pwd_context :: CryptContext where
  "test_pwd_context = \<lparr>hash = (\<lambda>p. ''bcrypt:'' @ p), verify = (\<lambda>p h. h = ''bcrypt:'' @ p)\<rparr>"

definition test_user :: DBUser where
  "test_user =
     \<lparr>DBUser.id = ''user-1'', DBUser.email = ''test@example.com'',
      DBUser.username = ''testuser'', DBUser.hashed_password = ''bcrypt:testpassword'',
      DBUser.first_name = ''Test'', DBUser.last_name = ''User'', DBUser.phone = None,
      DBUser.date_of_birth = None, DBUser.national_id = None, DBUser.is_active = True,
      DBUser.created_at = 0, DBUser.updated_at = None\<rparr>"

definition other_user :: DBUser where
  "other_user =
     \<lparr>DBUser.id = ''user-2'', DBUser.email = ''other@example.com'',
      DBUser.username = ''otheruser'', DBUser.hashed_password = ''bcrypt:otherpassword'',
      DBUser.first_name = ''Other'', DBUser.last_name = ''User'', DBUser.phone = None,
      DBUser.date_of_birth = None, DBUser.national_id = None, DBUser.is_active = True,
      DBUser.created_at = 0, DBUser.updated_at = None\<rparr>"

definition test_settings :: Settings where
  "test_settings =
     \<lparr>Settings.ACCESS_TOKEN_EXPIRE_MINUTES = 300, Settings.REFRESH_TOKEN_EXPIRE_MINUTES = 10080\<rparr>"

definition test_session :: session where
  "test_session =
     \<lparr>users = [test_user, other_user], provinces = test_provinces, travel_plans = [],
      numeric_column = (\<lambda>d. d)\<rparr>"

definition plan_request :: "Decimal option \<Rightarrow> CreateTravelPlan" where
  "plan_request b =
     \<lparr>CreateTravelPlan.province_id = 1001, CreateTravelPlan.start_date = 100,
      CreateTravelPlan.end_date = 700, CreateTravelPlan.budget = b,
      CreateTravelPlan.plan_notes = None\<rparr>"

definition session_with_plan :: session where
  "session_with_plan =
     snd (create_travel_plan ''plan-1'' 10 (plan_request (Some 10000)) (User_of test_user)
            test_session)"

definition no_update :: UpdateTravelPlan where
  "no_update =
     \<lparr>UpdateTravelPlan.start_date = Unset, UpdateTravelPlan.end_date = Unset,
      UpdateTravelPlan.budget = Unset, UpdateTravelPlan.status = Unset,
      UpdateTravelPlan.plan_notes = Unset\<rparr>"

section \<open>Properties of the tokens\<close>

lemmas claim_defs =
  validate_claims_def validate_iat_def validate_nbf_def validate_exp_def validate_aud_def
  validate_str_def validate_at_hash_def claim_int_def py_int_def

lemmas token_defs =
  verify_token_def create_access_token_def create_refresh_token_def jwt_encode_def
  jwt_decode_def is_JWTError_def ALGORITHM_def

lemma timegm_mono: "a \<le> b \<Longrightarrow> timegm a \<le> timegm b"
  by (simp add: timegm_def zdiv_mono1)


lemma validate_claims_issued:
  "validate_claims str_int now [''sub'' \<mapsto> Str u, ''exp'' \<mapsto> Num e, ''type'' \<mapsto> Str k]
     = (if e < timegm now then Some ExpiredSignatureError else None)"
  by (simp add: claim_defs)

lemma verify_token_issued:
  "verify_token str_int now (jwt_encode [''sub'' \<mapsto> Str u, ''exp'' \<mapsto> Num e, ''type'' \<mapsto> Str k]
       SECRET_KEY ALGORITHM) ty
     = (if e < timegm now \<or> k \<noteq> ty then Inr None else Inr (Some u))"
  by (simp add: verify_token_def jwt_encode_def jwt_decode_def validate_claims_issued
        is_JWTError_def ALGORITHM_def)

lemma create_access_token_issued:
  "create_access_token now [''sub'' \<mapsto> Str u] ttl =
     jwt_encode [''sub'' \<mapsto> Str u,
                 ''exp'' \<mapsto> Num (timegm (case ttl of
                      Some d \<Rightarrow> if d \<noteq> 0 then now + d
                                else now + minutes ACCESS_TOKEN_EXPIRE_MINUTES
                    | None \<Rightarrow> now + minutes ACCESS_TOKEN_EXPIRE_MINUTES)),
                 ''type'' \<mapsto> Str ''access''] SECRET_KEY ALGORITHM"
  by (simp add: create_access_token_def Let_def)

lemma create_refresh_token_issued:
  "create_refresh_token now [''sub'' \<mapsto> Str u] ttl =
     jwt_encode [''sub'' \<mapsto> Str u,
                 ''exp'' \<mapsto> Num (timegm (case ttl of
                      Some d \<Rightarrow> if d \<noteq> 0 then now + d
                                else now + minutes REFRESH_TOKEN_EXPIRE_MINUTES
                    | None \<Rightarrow> now + minutes REFRESH_TOKEN_EXPIRE_MINUTES)),
                 ''type'' \<mapsto> Str ''refresh''] SECRET_KEY ALGORITHM"
  by (simp add: create_refresh_token_def Let_def)

lemma verify_token_other_kind:
  "cs ''type'' = Some (Str k) \<Longrightarrow> k \<noteq> ty \<Longrightarrow>
   verify_token str_int now (Jws alg cs sg) ty \<noteq> Inr (Some v)"
  by (auto simp: verify_token_def jwt_decode_def Let_def split: option.splits if_splits)





text \<open>
  C1, as stated, at a lifetime of minus one second: the access token issued for
  \<open>alice\<close> at second 1000 expires at second 999, and verifying it as an access token at
  second 1000 does not return \<open>alice\<close>.
\<close>

theorem access_token_expired_counterexample:
  "verify_token decimal_digits (seconds 1000)
     (create_access_token (seconds 1000) [''sub'' \<mapsto> Str ''alice''] (Some (seconds (- 1))))
     ''access''
   \<noteq> Inr (Some ''alice'')"
  by (simp add: create_access_token_issued verify_token_issued timegm_def seconds_def)

text \<open>
  C1, amended. An access token issued for \<open>u\<close> verifies as an access token to \<open>u\<close>
  as long as the clock of the verification has not passed its expiry: the issue time plus
  the lifetime \<open>d\<close> when \<open>d\<close> is not zero, the issue time plus the default lifetime
  when the lifetime is absent or zero. For every lifetime and every clock, the access token
  issued for \<open>u\<close> verified as a refresh token returns \<open>None\<close>, and the refresh
  token issued for \<open>u\<close> verified as an access token returns \<open>None\<close>. Whatever
  claim set the token is issued from, an access token never verifies to a username as a
  refresh token, nor a refresh token as an access token.
\<close>

theorem token_kinds_separated:
  "(d \<noteq> 0 \<and> now' \<le> now + d \<longrightarrow>
      verify_token str_int now' (create_access_token now [''sub'' \<mapsto> Str u] (Some d)) ''access''
        = Inr (Some u))
   \<and> (now' \<le> now + minutes ACCESS_TOKEN_EXPIRE_MINUTES \<longrightarrow>
      verify_token str_int now' (create_access_token now [''sub'' \<mapsto> Str u] None) ''access''
        = Inr (Some u)
      \<and> verify_token str_int now' (create_access_token now [''sub'' \<mapsto> Str u] (Some 0)) ''access''
        = Inr (Some u))
   \<and> verify_token str_int now' (create_access_token now [''sub'' \<mapsto> Str u] ttl) ''refresh''
        = Inr None
   \<and> verify_token str_int now' (create_refresh_token now [''sub'' \<mapsto> Str u] ttl) ''access''
        = Inr None
   \<and> verify_token str_int now' (create_access_token now data ttl) ''refresh'' \<noteq> Inr (Some v)
   \<and> verify_token str_int now' (create_refresh_token now data ttl) ''access'' \<noteq> Inr (Some v)"
proof -
  have a: "verify_token str_int now' (create_access_token now [''sub'' \<mapsto> Str u] (Some d)) ''access''
        = Inr (Some u)" if "d \<noteq> 0" "now' \<le> now + d"
    using that timegm_mono [of now' "now + d"]
    by (simp add: create_access_token_issued verify_token_issued)
  have b: "verify_token str_int now' (create_access_token now [''sub'' \<mapsto> Str u] t) ''access''
        = Inr (Some u)"
    if "now' \<le> now + minutes ACCESS_TOKEN_EXPIRE_MINUTES" "t = None \<or> t = Some 0" for t
    using that timegm_mono [of now' "now + minutes ACCESS_TOKEN_EXPIRE_MINUTES"]
    by (auto simp add: create_access_token_issued verify_token_issued)
  have c: "verify_token str_int now' (create_access_token now [''sub'' \<mapsto> Str u] ttl) ''refresh''
        = Inr None"
    by (simp add: create_access_token_issued verify_token_issued)
  have d: "verify_token str_int now' (create_refresh_token now [''sub'' \<mapsto> Str u] ttl) ''access''
        = Inr None"
    by (simp add: create_refresh_token_issued verify_token_issued)
  have e: "verify_token str_int now' (create_access_token now data ttl) ''refresh'' \<noteq> Inr (Some v)"
    unfolding create_access_token_def jwt_encode_def Let_def
    by (rule verify_token_other_kind [where k = "''access''"]) simp_all
  have f: "verify_token str_int now' (create_refresh_token now data ttl) ''access'' \<noteq> Inr (Some v)"
    unfolding create_refresh_token_def jwt_encode_def Let_def
    by (rule verify_token_other_kind [where k = "''refresh''"]) simp_all
  from a b c d e f show ?thesis by blast
qed

theorem token_kinds_separated_witness:
  "(seconds 60 \<noteq> 0 \<and> seconds 1030 \<le> seconds 1000 + seconds 60)
   \<and> seconds 1030 \<le> seconds 1000 + minutes ACCESS_TOKEN_EXPIRE_MINUTES
   \<and> verify_token decimal_digits (seconds 1030)
        (create_access_token (seconds 1000) [''sub'' \<mapsto> Str ''alice''] (Some (seconds 60))) ''access''
       = Inr (Some ''alice'')
   \<and> verify_token decimal_digits (seconds 1030)
        (create_access_token (seconds 1000) [''sub'' \<mapsto> Str ''alice''] None) ''access''
       = Inr (Some ''alice'')
   \<and> verify_token decimal_digits (seconds 1030)
        (create_access_token (seconds 1000) [''sub'' \<mapsto> Str ''alice''] (Some (seconds 60))) ''refresh''
       = Inr None
   \<and> verify_token decimal_digits (seconds 1030)
        (create_refresh_token (seconds 1000) [''sub'' \<mapsto> Str ''alice''] (Some (seconds 60))) ''access''
       = Inr None"
  using token_kinds_separated
    [of "seconds 60" "seconds 1030" "seconds 1000" decimal_digits "''alice''" "Some (seconds 60)"]
  by (simp add: seconds_def minutes_def ACCESS_TOKEN_EXPIRE_MINUTES_def)




text \<open>
  Two more inputs of the verification, both envelopes signed with the key of the module.
  An expiry that is \<^verbatim>\<open>null\<close> makes the conversion raise a \<^verbatim>\<open>TypeError\<close>, which
  \<^verbatim>\<open>except JWTError\<close> does not catch. An expiry that is a string of digits is read as
  the number.
\<close>

lemma verify_token_null_exp_raises:
  "verify_token decimal_digits (seconds 1000)
     (jwt_encode [''sub'' \<mapsto> Str ''alice'', ''type'' \<mapsto> Str ''access'', ''exp'' \<mapsto> Null]
        SECRET_KEY ALGORITHM) ''access''
   = Inl TypeError"
  by (simp add: verify_token_def jwt_encode_def jwt_decode_def is_JWTError_def ALGORITHM_def
        claim_defs)

lemma verify_token_numeral_exp:
  "verify_token decimal_digits (seconds 1000)
     (jwt_encode [''sub'' \<mapsto> Str ''alice'', ''type'' \<mapsto> Str ''access'', ''exp'' \<mapsto> Str ''5000'']
        SECRET_KEY ALGORITHM) ''access''
   = Inr (Some ''alice'')"
  by (simp add: verify_token_def jwt_encode_def jwt_decode_def is_JWTError_def ALGORITHM_def
        claim_defs decimal_digits_def timegm_def seconds_def)

section \<open>Lemmas on the store\<close>

lemmas fixture_defs = test_provinces_def test_pwd_context_def test_user_def other_user_def
  test_session_def plan_request_def no_update_def User_of_def Province_of_def TravelPlan_of_def

lemma context_round_fixtures:
  "context_round (3 / 20) = 3 / 20"
  "context_round 1500 = 1500"
  "context_round 2250 = 2250"
  by code_simp+

lemma session_with_plan_eq:
  "session_with_plan =
     \<lparr>users = [test_user, other_user], provinces = test_provinces,
      travel_plans =
        [\<lparr>DBTravelPlan.id = ''plan-1'', DBTravelPlan.user_id = ''user-1'',
          DBTravelPlan.province_id = 1001, DBTravelPlan.start_date = 100,
          DBTravelPlan.end_date = 700, DBTravelPlan.budget = Some 10000,
          DBTravelPlan.estimated_tax_reduction = Some 1500, DBTravelPlan.status = ''planned'',
          DBTravelPlan.plan_notes = None, DBTravelPlan.created_at = 10,
          DBTravelPlan.updated_at = None\<rparr>],
      numeric_column = (\<lambda>d. d)\<rparr>"
  by (simp add: session_with_plan_def create_travel_plan_def insert_row_def fixture_defs Let_def
        context_round_fixtures)

lemma find_key_distinct:
  "distinct (map f xs) \<Longrightarrow> x \<in> set xs \<Longrightarrow> find (\<lambda>y. f y = f x) xs = Some x"
  by (induction xs) (auto simp: image_iff)

lemma find_None_notin:
  "k \<notin> f ` set xs \<Longrightarrow> find (\<lambda>y. f y = k) xs = None"
  by (auto simp: find_None_iff)

lemma set_join_province:
  "set (join_province tps prs) =
     {(tp, pr). tp \<in> set tps \<and> pr \<in> set prs \<and> DBTravelPlan.province_id tp = DBProvince.id pr}"
  by (auto simp: join_province_def)

lemma find_replace:
  "find (\<lambda>p. f p = k) xs = Some x \<Longrightarrow> f y = k \<Longrightarrow>
   find (\<lambda>p. f p = k) (map (\<lambda>p. if f p = k then y else p) xs) = Some y"
  by (induction xs) (auto split: if_splits)

lemma find_Some_key: "find (\<lambda>p. f p = k) xs = Some x \<Longrightarrow> f x = k \<and> x \<in> set xs"
  by (induction xs) (auto split: if_splits)


lemma apply_update_data_frame:
  assumes "apply_update_data upd tp = Inr tp1"
  shows "DBTravelPlan.id tp1 = DBTravelPlan.id tp"
    and "DBTravelPlan.user_id tp1 = DBTravelPlan.user_id tp"
    and "DBTravelPlan.province_id tp1 = DBTravelPlan.province_id tp"
    and "DBTravelPlan.created_at tp1 = DBTravelPlan.created_at tp"
    and "DBTravelPlan.estimated_tax_reduction tp1 = DBTravelPlan.estimated_tax_reduction tp"
    and "UpdateTravelPlan.start_date upd = Unset \<Longrightarrow>
           DBTravelPlan.start_date tp1 = DBTravelPlan.start_date tp"
    and "UpdateTravelPlan.end_date upd = Unset \<Longrightarrow>
           DBTravelPlan.end_date tp1 = DBTravelPlan.end_date tp"
    and "UpdateTravelPlan.budget upd = Unset \<Longrightarrow>
           DBTravelPlan.budget tp1 = DBTravelPlan.budget tp"
    and "UpdateTravelPlan.status upd = Unset \<Longrightarrow>
           DBTravelPlan.status tp1 = DBTravelPlan.status tp"
    and "UpdateTravelPlan.plan_notes upd = Unset \<Longrightarrow>
           DBTravelPlan.plan_notes tp1 = DBTravelPlan.plan_notes tp"
    and "DBTravelPlan.status tp1 = DBTravelPlan.status tp
           \<or> UpdateTravelPlan.status upd = Given (Some (DBTravelPlan.status tp1))"
    and "UpdateTravelPlan.status upd = Given (Some v) \<Longrightarrow> DBTravelPlan.status tp1 = v"
  using assms
  by (auto simp: apply_update_data_def setattr_required_def setattr_nullable_def
           split: sum.splits supplied.splits option.splits)


lemma recalculate_frame:
  shows "DBTravelPlan.id (recalculate upd s tp) = DBTravelPlan.id tp"
    and "DBTravelPlan.user_id (recalculate upd s tp) = DBTravelPlan.user_id tp"
    and "DBTravelPlan.province_id (recalculate upd s tp) = DBTravelPlan.province_id tp"
    and "DBTravelPlan.created_at (recalculate upd s tp) = DBTravelPlan.created_at tp"
    and "DBTravelPlan.start_date (recalculate upd s tp) = DBTravelPlan.start_date tp"
    and "DBTravelPlan.end_date (recalculate upd s tp) = DBTravelPlan.end_date tp"
    and "DBTravelPlan.budget (recalculate upd s tp) = DBTravelPlan.budget tp"
    and "DBTravelPlan.status (recalculate upd s tp) = DBTravelPlan.status tp"
    and "DBTravelPlan.plan_notes (recalculate upd s tp) = DBTravelPlan.plan_notes tp"
    and "UpdateTravelPlan.budget upd = Unset \<Longrightarrow> recalculate upd s tp = tp"
  by (simp_all add: recalculate_def Let_def split: option.splits)

lemma update_row_frame:
  shows "DBTravelPlan.id (update_row s l tp) = DBTravelPlan.id tp"
    and "DBTravelPlan.user_id (update_row s l tp) = DBTravelPlan.user_id tp"
    and "DBTravelPlan.province_id (update_row s l tp) = DBTravelPlan.province_id tp"
    and "DBTravelPlan.created_at (update_row s l tp) = DBTravelPlan.created_at tp"
    and "DBTravelPlan.start_date (update_row s l tp) = DBTravelPlan.start_date tp"
    and "DBTravelPlan.end_date (update_row s l tp) = DBTravelPlan.end_date tp"
    and "DBTravelPlan.status (update_row s l tp) = DBTravelPlan.status tp"
    and "DBTravelPlan.plan_notes (update_row s l tp) = DBTravelPlan.plan_notes tp"
    and "DBTravelPlan.updated_at (update_row s l tp) = DBTravelPlan.updated_at tp"
    and "DBTravelPlan.budget tp = DBTravelPlan.budget l \<Longrightarrow>
           DBTravelPlan.budget (update_row s l tp) = DBTravelPlan.budget l"
    and "DBTravelPlan.estimated_tax_reduction tp = DBTravelPlan.estimated_tax_reduction l \<Longrightarrow>
           DBTravelPlan.estimated_tax_reduction (update_row s l tp)
             = DBTravelPlan.estimated_tax_reduction l"
  by (simp_all add: update_row_def write_numeric_def)

lemma update_travel_plan_rows:
  assumes "find (\<lambda>p. DBTravelPlan.id p = plan_id) (travel_plans s) = Some tp"
      and "DBTravelPlan.user_id tp = User.id A"
  shows "travel_plans (snd (update_travel_plan now plan_id upd A s)) =
           (case apply_update_data upd tp of
              Inl e \<Rightarrow> travel_plans s
            | Inr tp1 \<Rightarrow>
                map (\<lambda>p. if DBTravelPlan.id p = plan_id
                          then update_row s tp
                                 ((recalculate upd s tp1)\<lparr>DBTravelPlan.updated_at := Some now\<rparr>)
                          else p)
                  (travel_plans s))"
proof (cases "apply_update_data upd tp")
  case (Inl e)
  with assms show ?thesis by (simp add: update_travel_plan_def)
next
  case (Inr tp1)
  have "DBTravelPlan.id tp = plan_id" using find_Some_key [OF assms(1)] by simp
  then have "DBTravelPlan.id (recalculate upd s tp1) = plan_id"
    using apply_update_data_frame(1) [OF Inr] by (simp add: recalculate_frame)
  with assms Inr show ?thesis
    by (simp add: update_travel_plan_def Let_def update_row_frame split: option.splits)
qed



lemma create_travel_plan_stored:
  assumes "find (\<lambda>p. DBProvince.id p = CreateTravelPlan.province_id req) (provinces s) = Some prov"
      and "find (\<lambda>p. DBTravelPlan.id p = new_id) (travel_plans s) = None"
  shows "\<exists>resp row.
           fst (create_travel_plan new_id now req A s) = Inr resp
         \<and> travel_plans (snd (create_travel_plan new_id now req A s)) = travel_plans s @ [row]
         \<and> DBTravelPlan.id row = new_id
         \<and> DBTravelPlan.status row = ''planned''
         \<and> DBTravelPlan.budget row = map_option (numeric_column s) (CreateTravelPlan.budget req)
         \<and> DBTravelPlan.estimated_tax_reduction row =
             (case CreateTravelPlan.budget req of
                None \<Rightarrow> None
              | Some b \<Rightarrow>
                  if b \<noteq> 0
                  then Some (numeric_column s
                         (context_round
                            (b * context_round (DBProvince.tax_reduction_percentage prov / 100))))
                  else None)
         \<and> TravelPlan.estimated_tax_reduction (TravelPlanCreationResponse.travel_plan resp)
             = DBTravelPlan.estimated_tax_reduction row
         \<and> TravelPlan.status (TravelPlanCreationResponse.travel_plan resp) = ''planned''
         \<and> TaxBenefits.estimated_reduction (TravelPlanCreationResponse.tax_benefits resp)
             = (case DBTravelPlan.estimated_tax_reduction row of
                  None \<Rightarrow> 0 | Some d \<Rightarrow> d)"
  using assms
  by (simp add: create_travel_plan_def insert_row_def Let_def TravelPlan_of_def
        split: option.splits)






section \<open>Ownership of travel plans\<close>

text \<open>
  C2. In a table whose identifiers are distinct, let \<open>p\<close> be the plan of identifier
  \<open>plan_id\<close>, owned by someone other than the principal \<open>A\<close>, and let
  \<open>missing_id\<close> be an identifier that no plan carries. Reading, updating and deleting
  \<open>plan_id\<close> as \<open>A\<close> each fail with status 404 and the detail
  \<^verbatim>\<open>Travel plan not found\<close>, which is exactly the outcome of the same operation on
  \<open>missing_id\<close>, and the update and the delete return the session as it was.
\<close>

theorem foreign_plan_not_found:
  assumes "distinct (map DBTravelPlan.id (travel_plans s))"
      and "p \<in> set (travel_plans s)"
      and "DBTravelPlan.id p = plan_id"
      and "DBTravelPlan.user_id p \<noteq> User.id A"
      and "missing_id \<notin> DBTravelPlan.id ` set (travel_plans s)"
  shows "get_travel_plan plan_id A s = Inl (HTTPException 404 ''Travel plan not found'' [])
       \<and> get_travel_plan missing_id A s = get_travel_plan plan_id A s
       \<and> update_travel_plan now plan_id upd A s
           = (Inl (HTTPException 404 ''Travel plan not found'' []), s)
       \<and> update_travel_plan now missing_id upd A s = update_travel_plan now plan_id upd A s
       \<and> delete_travel_plan plan_id A s
           = (Inl (HTTPException 404 ''Travel plan not found'' []), s)
       \<and> delete_travel_plan missing_id A s = delete_travel_plan plan_id A s"
proof -
  have found: "find (\<lambda>q. DBTravelPlan.id q = plan_id) (travel_plans s) = Some p"
    using find_key_distinct [OF assms(1) assms(2)] assms(3) by simp
  have missing: "find (\<lambda>q. DBTravelPlan.id q = missing_id) (travel_plans s) = None"
    using assms(5) by (rule find_None_notin)
  have only: "tp = p" if "tp \<in> set (travel_plans s)" "DBTravelPlan.id tp = plan_id" for tp
  proof -
    have "inj_on DBTravelPlan.id (set (travel_plans s))"
      using assms(1) by (simp add: distinct_map)
    then show ?thesis using that assms(2,3) by (auto dest: inj_onD)
  qed
  have "filter (\<lambda>(tp, pr). DBTravelPlan.id tp = plan_id \<and> DBTravelPlan.user_id tp = User.id A)
          (join_province (travel_plans s) (provinces s)) = []"
    using only assms(4) by (auto simp: filter_empty_conv set_join_province)
  then have g1: "get_travel_plan plan_id A s = Inl (HTTPException 404 ''Travel plan not found'' [])"
    by (simp add: get_travel_plan_def not_found_def)
  have "filter (\<lambda>(tp, pr). DBTravelPlan.id tp = missing_id \<and> DBTravelPlan.user_id tp = User.id A)
          (join_province (travel_plans s) (provinces s)) = []"
    using assms(5) by (auto simp: filter_empty_conv set_join_province)
  then have g2: "get_travel_plan missing_id A s = Inl (HTTPException 404 ''Travel plan not found'' [])"
    by (simp add: get_travel_plan_def not_found_def)
  have u1: "update_travel_plan now plan_id upd A s
              = (Inl (HTTPException 404 ''Travel plan not found'' []), s)"
    using found assms(4) by (simp add: update_travel_plan_def not_found_def)
  have u2: "update_travel_plan now missing_id upd A s
              = (Inl (HTTPException 404 ''Travel plan not found'' []), s)"
    using missing by (simp add: update_travel_plan_def not_found_def)
  have d1: "delete_travel_plan plan_id A s
              = (Inl (HTTPException 404 ''Travel plan not found'' []), s)"
    using found assms(4) by (simp add: delete_travel_plan_def not_found_def)
  have d2: "delete_travel_plan missing_id A s
              = (Inl (HTTPException 404 ''Travel plan not found'' []), s)"
    using missing by (simp add: delete_travel_plan_def not_found_def)
  show ?thesis using g1 g2 u1 u2 d1 d2 by simp
qed

theorem foreign_plan_not_found_witness:
  "distinct (map DBTravelPlan.id (travel_plans session_with_plan))
   \<and> map DBTravelPlan.id (travel_plans session_with_plan) = [''plan-1'']
   \<and> DBTravelPlan.user_id (hd (travel_plans session_with_plan)) \<noteq> User.id (User_of other_user)
   \<and> get_travel_plan ''plan-1'' (User_of other_user) session_with_plan = Inl (HTTPException 404 ''Travel plan not found'' [])
   \<and> get_travel_plan ''plan-9'' (User_of other_user) session_with_plan = Inl (HTTPException 404 ''Travel plan not found'' [])
   \<and> update_travel_plan 20 ''plan-1'' (no_update\<lparr>UpdateTravelPlan.status := Given (Some ''cancelled'')\<rparr>)
         (User_of other_user) session_with_plan = (Inl (HTTPException 404 ''Travel plan not found'' []), session_with_plan)
   \<and> delete_travel_plan ''plan-1'' (User_of other_user) session_with_plan
         = (Inl (HTTPException 404 ''Travel plan not found'' []), session_with_plan)
   \<and> delete_travel_plan ''plan-9'' (User_of other_user) session_with_plan
         = (Inl (HTTPException 404 ''Travel plan not found'' []), session_with_plan)"
proof -
  let ?p = "hd (travel_plans session_with_plan)"
  have h1: "distinct (map DBTravelPlan.id (travel_plans session_with_plan))"
    by (simp add: session_with_plan_eq)
  have h2: "?p \<in> set (travel_plans session_with_plan)"
    by (simp add: session_with_plan_eq)
  have h3: "DBTravelPlan.id ?p = ''plan-1''"
    by (simp add: session_with_plan_eq)
  have h4: "DBTravelPlan.user_id ?p \<noteq> User.id (User_of other_user)"
    by (simp add: session_with_plan_eq fixture_defs)
  have h5: "''plan-9'' \<notin> DBTravelPlan.id ` set (travel_plans session_with_plan)"
    by (simp add: session_with_plan_eq)
  have ids: "map DBTravelPlan.id (travel_plans session_with_plan) = [''plan-1'']"
    by (simp add: session_with_plan_eq)
  note w = foreign_plan_not_found [OF h1 h2 h3 h4 h5, of 20
             "no_update\<lparr>UpdateTravelPlan.status := Given (Some ''cancelled'')\<rparr>"]
  show ?thesis using h1 ids h4 w by simp
qed

section \<open>Login and registration\<close>

text \<open>
  C3. When no stored user has the username of the login request, or the user found by it
  fails the password verification against the stored digest, the login fails with status
  401, the detail \<^verbatim>\<open>Incorrect username or password\<close> and the header
  \<^verbatim>\<open>WWW-Authenticate: Bearer\<close>: one and the same value in both cases.
\<close>

theorem login_failures_indistinguishable:
  assumes "find (\<lambda>u. DBUser.username u = UserLogin.username user_login) (users s) = None
           \<or> (\<exists>u. find (\<lambda>u. DBUser.username u = UserLogin.username user_login) (users s) = Some u
                \<and> \<not> verify_password pwd_context (UserLogin.password user_login)
                       (DBUser.hashed_password u))"
  shows "login pwd_context settings now user_login s
           = Inl (HTTPException 401 ''Incorrect username or password''
                    [(''WWW-Authenticate'', ''Bearer'')])"
proof (cases "find (\<lambda>u. DBUser.username u = UserLogin.username user_login) (users s)")
  case None
  then show ?thesis by (simp add: login_def)
next
  case (Some u)
  with assms have "\<not> verify_password pwd_context (UserLogin.password user_login)
                       (DBUser.hashed_password u)"
    by auto
  with Some show ?thesis by (simp add: login_def)
qed

theorem login_failures_indistinguishable_witness:
  "find (\<lambda>u. DBUser.username u = ''nobody'') (users test_session) = None
   \<and> find (\<lambda>u. DBUser.username u = ''testuser'') (users test_session) = Some test_user
   \<and> \<not> verify_password test_pwd_context ''wrongpassword'' (DBUser.hashed_password test_user)
   \<and> login test_pwd_context test_settings 50
         \<lparr>UserLogin.username = ''nobody'', UserLogin.password = ''testpassword''\<rparr> test_session
       = Inl (HTTPException 401 ''Incorrect username or password'' [(''WWW-Authenticate'', ''Bearer'')])
   \<and> login test_pwd_context test_settings 50
         \<lparr>UserLogin.username = ''testuser'', UserLogin.password = ''wrongpassword''\<rparr> test_session
       = Inl (HTTPException 401 ''Incorrect username or password'' [(''WWW-Authenticate'', ''Bearer'')])"
proof -
  have a: "find (\<lambda>u. DBUser.username u = ''nobody'') (users test_session) = None"
    by (simp add: fixture_defs)
  have b: "find (\<lambda>u. DBUser.username u = ''testuser'') (users test_session) = Some test_user"
    by (simp add: fixture_defs)
  have c: "\<not> verify_password test_pwd_context ''wrongpassword'' (DBUser.hashed_password test_user)"
    by (simp add: verify_password_def fixture_defs)
  have w1: "login test_pwd_context test_settings 50
              \<lparr>UserLogin.username = ''nobody'', UserLogin.password = ''testpassword''\<rparr> test_session
            = Inl (HTTPException 401 ''Incorrect username or password'' [(''WWW-Authenticate'', ''Bearer'')])"
    by (rule login_failures_indistinguishable) (simp add: a)
  have w2: "login test_pwd_context test_settings 50
              \<lparr>UserLogin.username = ''testuser'', UserLogin.password = ''wrongpassword''\<rparr> test_session
            = Inl (HTTPException 401 ''Incorrect username or password'' [(''WWW-Authenticate'', ''Bearer'')])"
    by (rule login_failures_indistinguishable) (simp add: b c)
  show ?thesis using a b c w1 w2 by simp
qed

text \<open>
  C8. When a stored user already has the email of the registration request, the
  registration fails with status 400 and the detail \<^verbatim>\<open>Email already registered\<close>,
  whatever the requested username is (free or taken: the email is tested first), and the
  session is returned as it was.
\<close>

theorem register_duplicate_email:
  assumes "u \<in> set (users s)"
      and "DBUser.email u = RegisteredUser.email user_info"
  shows "register pwd_context new_id now user_info s
           = (Inl (HTTPException 400 ''Email already registered'' []), s)"
proof -
  have "find (\<lambda>u. DBUser.email u = RegisteredUser.email user_info) (users s) \<noteq> None"
    using assms by (auto simp: find_None_iff)
  then show ?thesis by (simp add: register_def)
qed

theorem register_duplicate_email_witness:
  "test_user \<in> set (users test_session)
   \<and> register test_pwd_context ''user-3'' 60
        \<lparr>RegisteredUser.email = ''test@example.com'',
         RegisteredUser.username = ''differentusername'', RegisteredUser.password = ''password123'',
         RegisteredUser.first_name = ''Different'', RegisteredUser.last_name = ''User'',
         RegisteredUser.phone = None, RegisteredUser.date_of_birth = None,
         RegisteredUser.national_id = None\<rparr> test_session
      = (Inl (HTTPException 400 ''Email already registered'' []), test_session)
   \<and> register test_pwd_context ''user-3'' 60
        \<lparr>RegisteredUser.email = ''test@example.com'',
         RegisteredUser.username = ''testuser'', RegisteredUser.password = ''password123'',
         RegisteredUser.first_name = ''Different'', RegisteredUser.last_name = ''User'',
         RegisteredUser.phone = None, RegisteredUser.date_of_birth = None,
         RegisteredUser.national_id = None\<rparr> test_session
      = (Inl (HTTPException 400 ''Email already registered'' []), test_session)"
proof -
  have m: "test_user \<in> set (users test_session)"
    by (simp add: test_session_def)
  have w1: "register test_pwd_context ''user-3'' 60
        \<lparr>RegisteredUser.email = ''test@example.com'',
         RegisteredUser.username = ''differentusername'', RegisteredUser.password = ''password123'',
         RegisteredUser.first_name = ''Different'', RegisteredUser.last_name = ''User'',
         RegisteredUser.phone = None, RegisteredUser.date_of_birth = None,
         RegisteredUser.national_id = None\<rparr> test_session
      = (Inl (HTTPException 400 ''Email already registered'' []), test_session)"
    by (rule register_duplicate_email [OF m]) (simp add: test_user_def)
  have w2: "register test_pwd_context ''user-3'' 60
        \<lparr>RegisteredUser.email = ''test@example.com'',
         RegisteredUser.username = ''testuser'', RegisteredUser.password = ''password123'',
         RegisteredUser.first_name = ''Different'', RegisteredUser.last_name = ''User'',
         RegisteredUser.phone = None, RegisteredUser.date_of_birth = None,
         RegisteredUser.national_id = None\<rparr> test_session
      = (Inl (HTTPException 400 ''Email already registered'' []), test_session)"
    by (rule register_duplicate_email [OF m]) (simp add: test_user_def)
  show ?thesis using m w1 w2 by simp
qed

section \<open>The estimated tax reduction at creation\<close>

text \<open>
  C5, at the failing input. A plan is created with a budget of 0 in the province of rate
  15. The claim requires the estimate \<open>0 * 15 / 100\<close>, which is 0; the stored plan
  has no estimate at all, because the guard of the computation tests the truthiness of the
  budget. The summary of the same response reports an estimated reduction of 0.
\<close>

theorem create_budget_zero_no_estimate:
  "map DBTravelPlan.estimated_tax_reduction
     (travel_plans (snd (create_travel_plan ''plan-1'' 10 (plan_request (Some 0)) (User_of test_user)
                           test_session)))
   = [None]
   \<and> map DBTravelPlan.estimated_tax_reduction
     (travel_plans (snd (create_travel_plan ''plan-1'' 10 (plan_request (Some 0)) (User_of test_user)
                           test_session)))
   \<noteq> [Some (0 * 15 / 100)]
   \<and> map_sum (\<lambda>e. e)
        (\<lambda>r. TaxBenefits.estimated_reduction (TravelPlanCreationResponse.tax_benefits r))
        (fst (create_travel_plan ''plan-1'' 10 (plan_request (Some 0)) (User_of test_user)
                test_session))
     = Inr 0"
  by (simp add: create_travel_plan_def insert_row_def fixture_defs Let_def)

text \<open>
  C10. A creation request with a budget of exactly zero, for an existing province and under
  a fresh identifier, succeeds and stores one new plan whose budget is what the column
  returns for 0 and whose estimate is unset; the plan of the response has no estimate either, and the
  \<^verbatim>\<open>tax_benefits\<close> summary of the response reports an estimated reduction of 0.
\<close>

theorem create_zero_budget_unset:
  assumes "find (\<lambda>p. DBProvince.id p = CreateTravelPlan.province_id req) (provinces s) = Some prov"
      and "find (\<lambda>p. DBTravelPlan.id p = new_id) (travel_plans s) = None"
      and "CreateTravelPlan.budget req = Some 0"
  shows "\<exists>resp row.
           fst (create_travel_plan new_id now req A s) = Inr resp
         \<and> travel_plans (snd (create_travel_plan new_id now req A s)) = travel_plans s @ [row]
         \<and> DBTravelPlan.budget row = Some (numeric_column s 0)
         \<and> DBTravelPlan.estimated_tax_reduction row = None
         \<and> TravelPlan.estimated_tax_reduction (TravelPlanCreationResponse.travel_plan resp) = None
         \<and> TaxBenefits.estimated_reduction (TravelPlanCreationResponse.tax_benefits resp) = 0"
proof -
  from create_travel_plan_stored [OF assms(1,2), of now A]
  obtain resp row where
    "fst (create_travel_plan new_id now req A s) = Inr resp"
    "travel_plans (snd (create_travel_plan new_id now req A s)) = travel_plans s @ [row]"
    "DBTravelPlan.budget row = map_option (numeric_column s) (CreateTravelPlan.budget req)"
    "DBTravelPlan.estimated_tax_reduction row =
             (case CreateTravelPlan.budget req of
                None \<Rightarrow> None
              | Some b \<Rightarrow>
                  if b \<noteq> 0
                  then Some (numeric_column s
                         (context_round
                            (b * context_round (DBProvince.tax_reduction_percentage prov / 100))))
                  else None)"
    "TravelPlan.estimated_tax_reduction (TravelPlanCreationResponse.travel_plan resp)
             = DBTravelPlan.estimated_tax_reduction row"
    "TaxBenefits.estimated_reduction (TravelPlanCreationResponse.tax_benefits resp)
             = (case DBTravelPlan.estimated_tax_reduction row of
                  None \<Rightarrow> 0 | Some d \<Rightarrow> d)"
    by blast
  with assms(3) show ?thesis by (intro exI [of _ resp] exI [of _ row]) simp
qed

theorem create_zero_budget_unset_witness:
  "find (\<lambda>p. DBProvince.id p = CreateTravelPlan.province_id (plan_request (Some 0)))
     (provinces session_with_plan) = Some (hd test_provinces)
   \<and> find (\<lambda>p. DBTravelPlan.id p = ''plan-2'') (travel_plans session_with_plan) = None
   \<and> CreateTravelPlan.budget (plan_request (Some 0)) = Some 0
   \<and> map (\<lambda>p. (DBTravelPlan.budget p, DBTravelPlan.estimated_tax_reduction p))
       (travel_plans (snd (create_travel_plan ''plan-2'' 30 (plan_request (Some 0))
                             (User_of test_user) session_with_plan)))
     = [(Some 10000, Some 1500), (Some 0, None)]
   \<and> map_sum (\<lambda>e. e) (\<lambda>r. TaxBenefits.estimated_reduction (TravelPlanCreationResponse.tax_benefits r))
       (fst (create_travel_plan ''plan-2'' 30 (plan_request (Some 0))
               (User_of test_user) session_with_plan))
     = Inr 0"
proof -
  have h1: "find (\<lambda>p. DBProvince.id p = CreateTravelPlan.province_id (plan_request (Some 0)))
              (provinces session_with_plan) = Some (hd test_provinces)"
    by (simp add: session_with_plan_eq fixture_defs)
  have h2: "find (\<lambda>p. DBTravelPlan.id p = ''plan-2'') (travel_plans session_with_plan) = None"
    by (simp add: session_with_plan_eq)
  have h3: "CreateTravelPlan.budget (plan_request (Some 0)) = Some 0"
    by (simp add: plan_request_def)
  from create_zero_budget_unset [OF h1 h2 h3, of 30 "User_of test_user"]
  obtain resp row where
    "fst (create_travel_plan ''plan-2'' 30 (plan_request (Some 0)) (User_of test_user)
            session_with_plan) = Inr resp"
    "travel_plans (snd (create_travel_plan ''plan-2'' 30 (plan_request (Some 0))
                          (User_of test_user) session_with_plan))
       = travel_plans session_with_plan @ [row]"
    "DBTravelPlan.budget row = Some (numeric_column session_with_plan 0)"
    "DBTravelPlan.estimated_tax_reduction row = None"
    "TaxBenefits.estimated_reduction (TravelPlanCreationResponse.tax_benefits resp) = 0"
    by blast
  with h1 h2 h3 show ?thesis by (simp add: session_with_plan_eq)
qed

section \<open>Updates of travel plans\<close>

text \<open>
  C6. After an update of the plan \<open>plan_id\<close> by its owner, the plan is still stored
  under \<open>plan_id\<close>, with the same \<open>id\<close>, \<open>user_id\<close>, \<open>province_id\<close> and
  \<open>created_at\<close>, and every field that the request does not supply keeps its value:
  \<open>start_date\<close>, \<open>end_date\<close>, \<open>status\<close> and \<open>notes\<close> each on its own,
  \<open>budget\<close> together with \<open>estimated_tax_reduction\<close>. A request that supplies only
  the status is the case where all of these but the status are unset.
\<close>

theorem update_frame:
  assumes "find (\<lambda>p. DBTravelPlan.id p = plan_id) (travel_plans s) = Some tp"
      and "DBTravelPlan.user_id tp = User.id A"
  shows "\<exists>tp'. find (\<lambda>p. DBTravelPlan.id p = plan_id)
                 (travel_plans (snd (update_travel_plan now plan_id upd A s))) = Some tp'
     \<and> DBTravelPlan.id tp' = DBTravelPlan.id tp
     \<and> DBTravelPlan.user_id tp' = DBTravelPlan.user_id tp
     \<and> DBTravelPlan.province_id tp' = DBTravelPlan.province_id tp
     \<and> DBTravelPlan.created_at tp' = DBTravelPlan.created_at tp
     \<and> (UpdateTravelPlan.start_date upd = Unset \<longrightarrow>
          DBTravelPlan.start_date tp' = DBTravelPlan.start_date tp)
     \<and> (UpdateTravelPlan.end_date upd = Unset \<longrightarrow>
          DBTravelPlan.end_date tp' = DBTravelPlan.end_date tp)
     \<and> (UpdateTravelPlan.budget upd = Unset \<longrightarrow>
          DBTravelPlan.budget tp' = DBTravelPlan.budget tp
          \<and> DBTravelPlan.estimated_tax_reduction tp' = DBTravelPlan.estimated_tax_reduction tp)
     \<and> (UpdateTravelPlan.status upd = Unset \<longrightarrow>
          DBTravelPlan.status tp' = DBTravelPlan.status tp)
     \<and> (UpdateTravelPlan.plan_notes upd = Unset \<longrightarrow>
          DBTravelPlan.plan_notes tp' = DBTravelPlan.plan_notes tp)"
proof (cases "apply_update_data upd tp")
  case (Inl e)
  then have "travel_plans (snd (update_travel_plan now plan_id upd A s)) = travel_plans s"
    using update_travel_plan_rows [OF assms, of now upd] by simp
  with assms(1) show ?thesis by simp
next
  case (Inr tp1)
  let ?tp3 = "update_row s tp ((recalculate upd s tp1)\<lparr>DBTravelPlan.updated_at := Some now\<rparr>)"
  have k: "DBTravelPlan.id tp = plan_id" using find_Some_key [OF assms(1)] by simp
  have k3: "DBTravelPlan.id ?tp3 = plan_id"
    using k apply_update_data_frame(1) [OF Inr] by (simp add: recalculate_frame update_row_frame)
  have rows: "travel_plans (snd (update_travel_plan now plan_id upd A s)) =
                map (\<lambda>p. if DBTravelPlan.id p = plan_id then ?tp3 else p) (travel_plans s)"
    using update_travel_plan_rows [OF assms, of now upd] Inr by simp
  have f: "find (\<lambda>p. DBTravelPlan.id p = plan_id)
             (travel_plans (snd (update_travel_plan now plan_id upd A s))) = Some ?tp3"
    unfolding rows using assms(1) k3 by (rule find_replace)
  show ?thesis
    using f apply_update_data_frame [OF Inr]
    by (intro exI [of _ ?tp3]) (simp add: recalculate_frame update_row_frame)
qed


theorem update_frame_witness:
  "find (\<lambda>p. DBTravelPlan.id p = ''plan-1'') (travel_plans session_with_plan)
     = Some (hd (travel_plans session_with_plan))
   \<and> DBTravelPlan.user_id (hd (travel_plans session_with_plan)) = User.id (User_of test_user)
   \<and> map (\<lambda>p. (DBTravelPlan.status p, DBTravelPlan.budget p, DBTravelPlan.plan_notes p,
                DBTravelPlan.start_date p, DBTravelPlan.end_date p,
                DBTravelPlan.estimated_tax_reduction p, DBTravelPlan.province_id p,
                DBTravelPlan.user_id p, DBTravelPlan.id p, DBTravelPlan.created_at p))
       (travel_plans (snd (update_travel_plan 20 ''plan-1''
                             (no_update\<lparr>UpdateTravelPlan.status := Given (Some ''completed'')\<rparr>)
                             (User_of test_user) session_with_plan)))
     = [(''completed'', Some 10000, None, 100, 700, Some 1500, 1001, ''user-1'', ''plan-1'', 10)]"
proof -
  have h1: "find (\<lambda>p. DBTravelPlan.id p = ''plan-1'') (travel_plans session_with_plan)
              = Some (hd (travel_plans session_with_plan))"
    by (simp add: session_with_plan_eq)
  have h2: "DBTravelPlan.user_id (hd (travel_plans session_with_plan))
              = User.id (User_of test_user)"
    by (simp add: session_with_plan_eq fixture_defs)
  note w = update_frame [OF h1 h2, of 20
             "no_update\<lparr>UpdateTravelPlan.status := Given (Some ''completed'')\<rparr>"]
  have v: "map (\<lambda>p. (DBTravelPlan.status p, DBTravelPlan.budget p, DBTravelPlan.plan_notes p,
                DBTravelPlan.start_date p, DBTravelPlan.end_date p,
                DBTravelPlan.estimated_tax_reduction p, DBTravelPlan.province_id p,
                DBTravelPlan.user_id p, DBTravelPlan.id p, DBTravelPlan.created_at p))
       (travel_plans (snd (update_travel_plan 20 ''plan-1''
                             (no_update\<lparr>UpdateTravelPlan.status := Given (Some ''completed'')\<rparr>)
                             (User_of test_user) session_with_plan)))
     = [(''completed'', Some 10000, None, 100, 700, Some 1500, 1001, ''user-1'', ''plan-1'', 10)]"
    by (simp add: session_with_plan_eq update_travel_plan_def apply_update_data_def setattr_required_def setattr_nullable_def
          recalculate_def update_row_def write_numeric_def insert_row_def fixture_defs Let_def
          context_round_fixtures)
  show ?thesis using h1 h2 v w by simp
qed

text \<open>
  C7, at the failing input. The plan has budget 10000 and estimate 1500 in the province of
  rate 15. Its owner updates the budget to 0: the budget becomes 0 and the estimate stays
  1500, where \<open>0 * 15 / 100\<close> is \<open>0\<close>. The guard of the recomputation tests the
  truthiness of the new budget, so that a supplied budget of zero (or \<^verbatim>\<open>null\<close>) skips it.
\<close>

theorem update_budget_zero_keeps_estimate:
  "map (\<lambda>p. (DBTravelPlan.budget p, DBTravelPlan.estimated_tax_reduction p))
     (travel_plans (snd (update_travel_plan 20 ''plan-1''
                           (no_update\<lparr>UpdateTravelPlan.budget := Given (Some 0)\<rparr>)
                           (User_of test_user) session_with_plan)))
   = [(Some 0, Some 1500)]"
  by (simp add: session_with_plan_eq update_travel_plan_def apply_update_data_def setattr_required_def setattr_nullable_def
          recalculate_def update_row_def write_numeric_def insert_row_def fixture_defs Let_def
          context_round_fixtures)

section \<open>The status of a travel plan\<close>




end
